theory Spec2Isabelle
  imports Main
begin

section \<open>The pipeline engine of drone-runner-docker (engine/engine\_impl.go)\<close>

text \<open>
  The engine holds one handle to a Docker API client and drives it: \<open>Setup\<close> creates
  the volumes and the network of a pipeline, \<open>Run\<close> takes one step through create,
  start, tail and wait, \<open>Destroy\<close> removes everything again. The engine computes
  nothing by itself; what it does is the sequence of requests it sends to the client and
  what it returns for the replies it gets. The model therefore threads the list of the
  requests sent so far (oldest first) through every function, and takes the client as a
  record of reply functions, each reading that list: any sequence of replies, and so any
  combination of failures, is some client. The context that every function receives and
  passes on unread is left out. A Spec and a Step reach the engine through pointers; the
  model takes the values they point to.
\<close>

subsection \<open>Errors\<close>

text \<open>
  A Go \<open>error\<close> value is \<open>error option\<close>, \<open>None\<close> for \<open>nil\<close>. The only
  distinction the engine makes among errors is \<open>docker.IsErrImageNotFound\<close>, which
  holds for the client's image-not-found error and for nothing else, \<open>nil\<close> included.
\<close>

datatype error = imageNotFoundError string | otherError string

fun IsErrImageNotFound :: "error option \<Rightarrow> bool" where
  "IsErrImageNotFound (Some (imageNotFoundError _)) = True"
| "IsErrImageNotFound _ = False"

subsection \<open>The pipeline specification\<close>

text \<open>
  The types of a pipeline are declared in another file of the package. The records
  below have the fields that engine\_impl.go reads, at the types it reads them at.
\<close>

type_synonym labels = "string \<rightharpoonup> string"

record Platform =
  OS :: string
  Arch :: string

record VolumeEmptyDir =
  ID :: string
  Labels :: labels
  Medium :: string

text \<open>\<open>EmptyDir\<close> is a pointer in the source: \<open>None\<close> is \<open>nil\<close>.\<close>

record Volume =
  EmptyDir :: "VolumeEmptyDir option"

record Network =
  ID :: string
  Labels :: labels

record Auth =
  Username :: string
  Password :: string

text \<open>
  Modelled from the spec: the declaration of \<open>PullPolicy\<close> is not in engine\_impl.go;
  the specification lists the policies Default, Always and Never, and engine\_impl.go
  names exactly \<open>PullDefault\<close>, \<open>PullAlways\<close> and \<open>PullNever\<close>.
\<close>

datatype PullPolicy = PullDefault | PullAlways | PullNever

record Step =
  ID :: string
  Image :: string
  Auth :: "Auth option"
  Pull :: PullPolicy

record Spec =
  Platform :: Platform
  Volumes :: "Volume list"
  Network :: Network
  Steps :: "Step list"

text \<open>The result of a step.\<close>

record State =
  Exited :: bool
  ExitCode :: int
  OOMKilled :: bool

subsection \<open>The Docker client\<close>

text \<open>Request bodies and options of the client library, with the fields the engine sets.\<close>

record VolumesCreateBody =
  Name :: string
  Driver :: string
  Labels :: labels

record NetworkCreate =
  Driver :: string
  Labels :: labels

record ContainerRemoveOptions =
  Force :: bool
  RemoveLinks :: bool
  RemoveVolumes :: bool

record ImagePullOptions =
  RegistryAuth :: string

record ContainerLogsOptions =
  Follow :: bool
  ShowStdout :: bool
  ShowStderr :: bool
  Details :: bool
  Timestamps :: bool

text \<open>
  The three configuration objects of a container-creation request
  (\<open>container.Config\<close>, \<open>container.HostConfig\<close> and
  \<open>network.NetworkingConfig\<close> of the client library) are built by \<open>toConfig\<close>,
  \<open>toHostConfig\<close> and \<open>toNetConfig\<close>, pure functions of the Spec and the Step
  that live in another file. The engine only passes them on, so their types are the
  type parameters \<open>'c\<close>, \<open>'h\<close> and \<open>'n\<close> of the model.
\<close>

text \<open>
  What \<open>ContainerInspect\<close> reports, as far as \<open>wait\<close> reads it. \<open>State\<close> is a
  pointer in the client library, so it can be \<open>nil\<close>.
\<close>

record ContainerState =
  Running :: bool
  ExitCode :: int
  OOMKilled :: bool

record ContainerJSON =
  State :: "ContainerState option"

text \<open>
  \<open>ContainerWait\<close> returns two channels. At most the fact which of them delivers
  matters to the engine, and whether any does: a container that never stops and a wait
  that never fails deliver nothing.
\<close>

datatype wait_channels = WaitExited int | WaitError error | WaitNothing

text \<open>One request to the client, with its arguments.\<close>

datatype ('c, 'h, 'n) request =
    ReqVolumeCreate VolumesCreateBody
  | ReqNetworkCreate string NetworkCreate
  | ReqContainerKill string string
  | ReqContainerRemove string ContainerRemoveOptions
  | ReqVolumeRemove string bool
  | ReqNetworkRemove string
  | ReqImagePull string ImagePullOptions
  | ReqContainerCreate "'c" "'h" "'n" string
  | ReqContainerStart string
  | ReqContainerLogs string ContainerLogsOptions
  | ReqContainerWait string string
  | ReqContainerInspect string

text \<open>
  The client: one reply function for each method the engine calls. The first argument
  is the list of the requests sent before this one. Results the engine never reads
  (the created volume, the network id, the container id, the bytes of a pulled image,
  the log stream) are left out; what remains of such a call is its error.
\<close>

type_synonym ('c, 'h, 'n) trace = "('c, 'h, 'n) request list"

record ('c, 'h, 'n) client =
  VolumeCreate :: "('c, 'h, 'n) trace \<Rightarrow> VolumesCreateBody \<Rightarrow> error option"
  NetworkCreate :: "('c, 'h, 'n) trace \<Rightarrow> string \<Rightarrow> NetworkCreate \<Rightarrow> error option"
  ContainerKill :: "('c, 'h, 'n) trace \<Rightarrow> string \<Rightarrow> string \<Rightarrow> error option"
  ContainerRemove :: "('c, 'h, 'n) trace \<Rightarrow> string \<Rightarrow> ContainerRemoveOptions \<Rightarrow> error option"
  VolumeRemove :: "('c, 'h, 'n) trace \<Rightarrow> string \<Rightarrow> bool \<Rightarrow> error option"
  NetworkRemove :: "('c, 'h, 'n) trace \<Rightarrow> string \<Rightarrow> error option"
  ImagePull :: "('c, 'h, 'n) trace \<Rightarrow> string \<Rightarrow> ImagePullOptions \<Rightarrow> error option"
  ContainerCreate :: "('c, 'h, 'n) trace \<Rightarrow> 'c \<Rightarrow> 'h \<Rightarrow> 'n \<Rightarrow> string \<Rightarrow> error option"
  ContainerStart :: "('c, 'h, 'n) trace \<Rightarrow> string \<Rightarrow> error option"
  ContainerLogs :: "('c, 'h, 'n) trace \<Rightarrow> string \<Rightarrow> ContainerLogsOptions \<Rightarrow> error option"
  ContainerWait :: "('c, 'h, 'n) trace \<Rightarrow> string \<Rightarrow> string \<Rightarrow> wait_channels"
  ContainerInspect :: "('c, 'h, 'n) trace \<Rightarrow> string \<Rightarrow> error + ContainerJSON"

subsection \<open>Setup\<close>

text \<open>
  The loop over \<open>spec.Volumes\<close>: a volume without \<open>EmptyDir\<close> is skipped, every
  other one is created, and the first error ends Setup.
\<close>

fun Setup_volumes ::
  "('c, 'h, 'n) client \<Rightarrow> Volume list \<Rightarrow> ('c, 'h, 'n) trace \<Rightarrow>
   error option \<times> ('c, 'h, 'n) trace" where
  "Setup_volumes c [] tr = (None, tr)"
| "Setup_volumes c (vol # vols) tr =
     (case EmptyDir vol of
        None \<Rightarrow> Setup_volumes c vols tr
      | Some ed \<Rightarrow>
          let body = \<lparr>Name = VolumeEmptyDir.ID ed, VolumesCreateBody.Driver = ''local'',
                       VolumesCreateBody.Labels = VolumeEmptyDir.Labels ed\<rparr>;
              err = VolumeCreate c tr body;
              tr' = tr @ [ReqVolumeCreate body]
          in (case err of
                Some e \<Rightarrow> (Some e, tr')
              | None \<Rightarrow> Setup_volumes c vols tr'))"

definition Setup ::
  "('c, 'h, 'n) client \<Rightarrow> Spec \<Rightarrow> ('c, 'h, 'n) trace \<Rightarrow>
   error option \<times> ('c, 'h, 'n) trace" where
  "Setup c spec tr =
     (case Setup_volumes c (Volumes spec) tr of
        (Some e, tr') \<Rightarrow> (Some e, tr')
      | (None, tr') \<Rightarrow>
          let driver = (if OS (Platform spec) = ''windows'' then ''nat'' else ''bridge'');
              opts = \<lparr>NetworkCreate.Driver = driver,
                       NetworkCreate.Labels = Network.Labels (Network spec)\<rparr>;
              err = NetworkCreate c tr' (Network.ID (Network spec)) opts
          in (err, tr' @ [ReqNetworkCreate (Network.ID (Network spec)) opts]))"

subsection \<open>Destroy\<close>

definition removeOpts :: ContainerRemoveOptions where
  "removeOpts = \<lparr>Force = True, RemoveLinks = False, RemoveVolumes = True\<rparr>"

text \<open>The three loops of Destroy. Each sends its request and drops the reply.\<close>

fun Destroy_kill ::
  "('c, 'h, 'n) client \<Rightarrow> Step list \<Rightarrow> ('c, 'h, 'n) trace \<Rightarrow>
   ('c, 'h, 'n) trace" where
  "Destroy_kill c [] tr = tr"
| "Destroy_kill c (step # steps) tr =
     (let _ = ContainerKill c tr (Step.ID step) ''9''
      in Destroy_kill c steps (tr @ [ReqContainerKill (Step.ID step) ''9'']))"

fun Destroy_remove ::
  "('c, 'h, 'n) client \<Rightarrow> Step list \<Rightarrow> ('c, 'h, 'n) trace \<Rightarrow>
   ('c, 'h, 'n) trace" where
  "Destroy_remove c [] tr = tr"
| "Destroy_remove c (step # steps) tr =
     (let _ = ContainerRemove c tr (Step.ID step) removeOpts
      in Destroy_remove c steps (tr @ [ReqContainerRemove (Step.ID step) removeOpts]))"

fun Destroy_volumes ::
  "('c, 'h, 'n) client \<Rightarrow> Volume list \<Rightarrow> ('c, 'h, 'n) trace \<Rightarrow>
   ('c, 'h, 'n) trace" where
  "Destroy_volumes c [] tr = tr"
| "Destroy_volumes c (vol # vols) tr =
     (case EmptyDir vol of
        None \<Rightarrow> Destroy_volumes c vols tr
      | Some ed \<Rightarrow>
          if Medium ed = ''memory'' then Destroy_volumes c vols tr
          else (let _ = VolumeRemove c tr (VolumeEmptyDir.ID ed) True
                in Destroy_volumes c vols (tr @ [ReqVolumeRemove (VolumeEmptyDir.ID ed) True])))"

definition Destroy ::
  "('c, 'h, 'n) client \<Rightarrow> Spec \<Rightarrow> ('c, 'h, 'n) trace \<Rightarrow>
   error option \<times> ('c, 'h, 'n) trace" where
  "Destroy c spec tr =
     (let tr1 = Destroy_kill c (Steps spec) tr;
          tr2 = Destroy_remove c (Steps spec) tr1;
          tr3 = Destroy_volumes c (Volumes spec) tr2;
          _ = NetworkRemove c tr3 (Network.ID (Network spec))
      in (None, tr3 @ [ReqNetworkRemove (Network.ID (Network spec))]))"

subsection \<open>Helpers of the package that engine\_impl.go calls\<close>

text \<open>
  \<open>parseImage\<close>, \<open>auth.Encode\<close>, \<open>toConfig\<close>, \<open>toHostConfig\<close> and
  \<open>toNetConfig\<close> are pure functions defined outside engine\_impl.go. They are
  parameters of the model: every theorem below holds for whatever they compute.
  \<open>parseImage\<close> returns the domain, the name and the flag \<open>latest\<close> of an image
  reference, or an error.
\<close>

record ('c, 'h, 'n) helpers =
  parseImage :: "string \<Rightarrow> error + (string \<times> string \<times> bool)"
  auth_Encode :: "string \<Rightarrow> string \<Rightarrow> string"
  toConfig :: "Spec \<Rightarrow> Step \<Rightarrow> 'c"
  toHostConfig :: "Spec \<Rightarrow> Step \<Rightarrow> 'h"
  toNetConfig :: "Spec \<Rightarrow> Step \<Rightarrow> 'n"

subsection \<open>Run and its four stages\<close>

text \<open>
  The pull options of a step: the encoded credentials when the step has some, the
  zero value otherwise.
\<close>

definition pullopts :: "('c, 'h, 'n) helpers \<Rightarrow> Step \<Rightarrow> ImagePullOptions" where
  "pullopts h step =
     \<lparr>RegistryAuth =
        (case Auth step of
           None \<Rightarrow> ''''
         | Some a \<Rightarrow> auth_Encode h (Username a) (Password a))\<rparr>"

text \<open>
  \<open>create\<close>. The output writer it receives is never used and is left out. Reading a
  pulled image's stream to its end and closing it are no requests to the client and are
  left out as well.
\<close>

definition create ::
  "('c, 'h, 'n) helpers \<Rightarrow> ('c, 'h, 'n) client \<Rightarrow> Spec \<Rightarrow> Step \<Rightarrow> ('c, 'h, 'n) trace \<Rightarrow>
   error option \<times> ('c, 'h, 'n) trace" where
  "create h c spec step tr =
     (case parseImage h (Image step) of
        Inl err \<Rightarrow> (Some err, tr)
      | Inr (domain, name, latest) \<Rightarrow>
          let pull = ReqImagePull (Image step) (pullopts h step);
              (pullerr, tr1) =
                (if Pull step = PullAlways \<or> (Pull step = PullDefault \<and> latest)
                 then (ImagePull c tr (Image step) (pullopts h step), tr @ [pull])
                 else (None, tr))
          in (case pullerr of
                Some e \<Rightarrow> (Some e, tr1)
              | None \<Rightarrow>
                  let cc = ReqContainerCreate (toConfig h spec step) (toHostConfig h spec step)
                             (toNetConfig h spec step) (Step.ID step);
                      err = ContainerCreate c tr1 (toConfig h spec step) (toHostConfig h spec step)
                              (toNetConfig h spec step) (Step.ID step);
                      tr2 = tr1 @ [cc]
                  in if IsErrImageNotFound err \<and> Pull step \<noteq> PullNever
                     then (case ImagePull c tr2 (Image step) (pullopts h step) of
                             Some e \<Rightarrow> (Some e, tr2 @ [pull])
                           | None \<Rightarrow>
                               (ContainerCreate c (tr2 @ [pull]) (toConfig h spec step)
                                  (toHostConfig h spec step) (toNetConfig h spec step) (Step.ID step),
                                tr2 @ [pull, cc]))
                     else (err, tr2)))"

definition start ::
  "('c, 'h, 'n) client \<Rightarrow> string \<Rightarrow> ('c, 'h, 'n) trace \<Rightarrow>
   error option \<times> ('c, 'h, 'n) trace" where
  "start c id' tr = (ContainerStart c tr id', tr @ [ReqContainerStart id'])"

definition logsOpts :: ContainerLogsOptions where
  "logsOpts = \<lparr>Follow = True, ShowStdout = True, ShowStderr = True, Details = False,
                Timestamps = False\<rparr>"

text \<open>
  \<open>tail\<close> asks for the log stream. Copying the stream to the output runs in a
  goroutine of its own that nothing waits for, and sends no request: \<open>tail\<close> returns
  \<open>nil\<close> as soon as it has the stream.
\<close>

definition tail ::
  "('c, 'h, 'n) client \<Rightarrow> string \<Rightarrow> ('c, 'h, 'n) trace \<Rightarrow>
   error option \<times> ('c, 'h, 'n) trace" where
  "tail c id' tr =
     (case ContainerLogs c tr id' logsOpts of
        Some err \<Rightarrow> (Some err, tr @ [ReqContainerLogs id' logsOpts])
      | None \<Rightarrow> (None, tr @ [ReqContainerLogs id' logsOpts]))"

text \<open>
  How a call that need not return ends: it returns, it blocks for ever, or it panics.
\<close>

datatype 'a outcome = Return 'a | Blocked | Panic

text \<open>
  \<open>wait\<close>. The \<open>select\<close> takes whichever channel delivers and ignores what it
  delivers; when neither does, \<open>wait\<close> never returns. Then the container is
  inspected once. Reading \<open>info.State.Running\<close> panics on a \<open>nil\<close> State; the
  branch it guards is empty.
\<close>

definition wait ::
  "('c, 'h, 'n) client \<Rightarrow> string \<Rightarrow> ('c, 'h, 'n) trace \<Rightarrow>
   (State option \<times> error option) outcome \<times> ('c, 'h, 'n) trace" where
  "wait c id' tr =
     (let tr1 = tr @ [ReqContainerWait id' ''''];
          tr2 = tr1 @ [ReqContainerInspect id']
      in (case ContainerWait c tr id' '''' of
            WaitNothing \<Rightarrow> (Blocked, tr1)
          | _ \<Rightarrow>
              (case ContainerInspect c tr1 id' of
                 Inl err \<Rightarrow> (Return (None, Some err), tr2)
               | Inr info \<Rightarrow>
                   (case ContainerJSON.State info of
                      None \<Rightarrow> (Panic, tr2)
                    | Some st \<Rightarrow>
                        (Return (Some \<lparr>Exited = True,
                                       State.ExitCode = ContainerState.ExitCode st,
                                       State.OOMKilled = ContainerState.OOMKilled st\<rparr>, None),
                         tr2)))))"

definition Run ::
  "('c, 'h, 'n) helpers \<Rightarrow> ('c, 'h, 'n) client \<Rightarrow> Spec \<Rightarrow> Step \<Rightarrow> ('c, 'h, 'n) trace \<Rightarrow>
   (State option \<times> error option) outcome \<times> ('c, 'h, 'n) trace" where
  "Run h c spec step tr =
     (case create h c spec step tr of
        (Some err, tr1) \<Rightarrow> (Return (None, Some err), tr1)
      | (None, tr1) \<Rightarrow>
          (case start c (Step.ID step) tr1 of
             (Some err, tr2) \<Rightarrow> (Return (None, Some err), tr2)
           | (None, tr2) \<Rightarrow>
               (case tail c (Step.ID step) tr2 of
                  (Some err, tr3) \<Rightarrow> (Return (None, Some err), tr3)
                | (None, tr3) \<Rightarrow> wait c (Step.ID step) tr3)))"

subsection \<open>Reading a trace\<close>

text \<open>
  The requests a call added to the trace \<open>tr\<close> it started from, when it returned the
  trace \<open>tr'\<close>.
\<close>

definition issued :: "'a list \<Rightarrow> 'a list \<Rightarrow> 'a list" where
  "issued tr tr' = drop (length tr) tr'"

text \<open>The error the client answers to a request sent after the trace \<open>tr\<close>.\<close>

fun reply_error :: "('c, 'h, 'n) client \<Rightarrow> ('c, 'h, 'n) trace \<Rightarrow> ('c, 'h, 'n) request \<Rightarrow> error option" where
  "reply_error c tr (ReqVolumeCreate body) = VolumeCreate c tr body"
| "reply_error c tr (ReqNetworkCreate nid opts) = NetworkCreate c tr nid opts"
| "reply_error c tr (ReqContainerKill cid sig) = ContainerKill c tr cid sig"
| "reply_error c tr (ReqContainerRemove cid opts) = ContainerRemove c tr cid opts"
| "reply_error c tr (ReqVolumeRemove vid force) = VolumeRemove c tr vid force"
| "reply_error c tr (ReqNetworkRemove nid) = NetworkRemove c tr nid"
| "reply_error c tr (ReqImagePull img opts) = ImagePull c tr img opts"
| "reply_error c tr (ReqContainerCreate cfg hcfg ncfg name) = ContainerCreate c tr cfg hcfg ncfg name"
| "reply_error c tr (ReqContainerStart cid) = ContainerStart c tr cid"
| "reply_error c tr (ReqContainerLogs cid opts) = ContainerLogs c tr cid opts"
| "reply_error c tr (ReqContainerWait cid cond) =
     (case ContainerWait c tr cid cond of WaitError e \<Rightarrow> Some e | _ \<Rightarrow> None)"
| "reply_error c tr (ReqContainerInspect cid) =
     (case ContainerInspect c tr cid of Inl e \<Rightarrow> Some e | Inr _ \<Rightarrow> None)"

text \<open>
  The errors the client answers to the requests \<open>rs\<close>, sent one after the other
  after the trace \<open>tr\<close>.
\<close>

fun replies :: "('c, 'h, 'n) client \<Rightarrow> ('c, 'h, 'n) trace \<Rightarrow> ('c, 'h, 'n) trace \<Rightarrow> error option list" where
  "replies c tr [] = []"
| "replies c tr (r # rs) = reply_error c tr r # replies c (tr @ [r]) rs"

fun is_creation :: "('c, 'h, 'n) request \<Rightarrow> bool" where
  "is_creation (ReqVolumeCreate _) = True"
| "is_creation (ReqNetworkCreate _ _) = True"
| "is_creation _ = False"

fun is_VolumeCreate :: "('c, 'h, 'n) request \<Rightarrow> bool" where
  "is_VolumeCreate (ReqVolumeCreate _) = True"
| "is_VolumeCreate _ = False"

fun is_VolumeRemove :: "('c, 'h, 'n) request \<Rightarrow> bool" where
  "is_VolumeRemove (ReqVolumeRemove _ _) = True"
| "is_VolumeRemove _ = False"

fun is_ImagePull :: "('c, 'h, 'n) request \<Rightarrow> bool" where
  "is_ImagePull (ReqImagePull _ _) = True"
| "is_ImagePull _ = False"

fun is_ContainerCreate :: "('c, 'h, 'n) request \<Rightarrow> bool" where
  "is_ContainerCreate (ReqContainerCreate _ _ _ _) = True"
| "is_ContainerCreate _ = False"

fun is_ContainerInspect :: "('c, 'h, 'n) request \<Rightarrow> bool" where
  "is_ContainerInspect (ReqContainerInspect _) = True"
| "is_ContainerInspect _ = False"

text \<open>The drivers of the network-creation requests of a trace, in order.\<close>

fun network_drivers :: "('c, 'h, 'n) trace \<Rightarrow> string list" where
  "network_drivers [] = []"
| "network_drivers (ReqNetworkCreate nid opts # rs) = NetworkCreate.Driver opts # network_drivers rs"
| "network_drivers (_ # rs) = network_drivers rs"

subsection \<open>Sample inputs\<close>

text \<open>A client every call of which succeeds; the container has stopped with code 0.\<close>

definition ok_client :: "('c, 'h, 'n) client" where
  "ok_client =
     \<lparr>VolumeCreate = (\<lambda>tr body. None),
      NetworkCreate = (\<lambda>tr nid opts. None),
      ContainerKill = (\<lambda>tr cid sig. None),
      ContainerRemove = (\<lambda>tr cid opts. None),
      VolumeRemove = (\<lambda>tr vid force. None),
      NetworkRemove = (\<lambda>tr nid. None),
      ImagePull = (\<lambda>tr img opts. None),
      ContainerCreate = (\<lambda>tr cfg hcfg ncfg name. None),
      ContainerStart = (\<lambda>tr cid. None),
      ContainerLogs = (\<lambda>tr cid opts. None),
      ContainerWait = (\<lambda>tr cid cond. WaitExited 0),
      ContainerInspect = (\<lambda>tr cid.
        Inr \<lparr>State = Some \<lparr>Running = False, ExitCode = 0, OOMKilled = False\<rparr>\<rparr>)\<rparr>"

definition example_step :: Step where
  "example_step = \<lparr>Step.ID = ''step1'', Image = ''app:1.4.0'', Auth = None, Pull = PullDefault\<rparr>"

definition disk_volume :: Volume where
  "disk_volume =
     \<lparr>EmptyDir = Some \<lparr>VolumeEmptyDir.ID = ''v1'', VolumeEmptyDir.Labels = Map.empty,
                        Medium = ''disk''\<rparr>\<rparr>"

definition memory_volume :: Volume where
  "memory_volume =
     \<lparr>EmptyDir = Some \<lparr>VolumeEmptyDir.ID = ''v2'', VolumeEmptyDir.Labels = Map.empty,
                        Medium = ''memory''\<rparr>\<rparr>"

text \<open>A pipeline with a disk volume \<open>v1\<close>, a memory volume \<open>v2\<close> and one step.\<close>

definition example_spec :: Spec where
  "example_spec =
     \<lparr>Platform = \<lparr>OS = ''linux'', Arch = ''amd64''\<rparr>,
      Volumes = [disk_volume, memory_volume],
      Network = \<lparr>Network.ID = ''net'', Network.Labels = Map.empty\<rparr>,
      Steps = [example_step]\<rparr>"

text \<open>
  Modelled from the spec: \<open>parseImage\<close> is defined outside engine\_impl.go. By the
  specification it fails on a malformed reference and reports whether the tag is
  \<open>latest\<close>, an absent tag included. The resolver of the sample helpers does so on
  the references the sample inputs use and knows no other reference. The sample
  translations keep a name each.
\<close>

definition example_helpers :: "(string, string, string) helpers" where
  "example_helpers =
     \<lparr>parseImage = (\<lambda>image.
        if image = ''app:1.4.0'' then Inr (''docker.io'', ''library/app'', False)
        else if image = ''app:latest'' \<or> image = ''app'' then Inr (''docker.io'', ''library/app'', True)
        else Inl (otherError ''invalid reference format'')),
      auth_Encode = (\<lambda>username password. username @ '':'' @ password),
      toConfig = (\<lambda>spec step. Image step),
      toHostConfig = (\<lambda>spec step. Step.ID step),
      toNetConfig = (\<lambda>spec step. Network.ID (Network spec))\<rparr>"

text \<open>A client whose disk is full when the second volume is created.\<close>

definition full_disk_client :: "('c, 'h, 'n) client" where
  "full_disk_client =
     ok_client\<lparr>VolumeCreate := (\<lambda>tr body.
        if Name body = ''v2'' then Some (otherError ''no space left on device'') else None)\<rparr>"

text \<open>The creation request that Setup sends for an \<open>EmptyDir\<close>.\<close>

definition VolumeCreate_request :: "VolumeEmptyDir \<Rightarrow> ('c, 'h, 'n) request" where
  "VolumeCreate_request ed =
     ReqVolumeCreate \<lparr>Name = VolumeEmptyDir.ID ed, VolumesCreateBody.Driver = ''local'',
                      VolumesCreateBody.Labels = VolumeEmptyDir.Labels ed\<rparr>"

text \<open>A volume of another kind: its \<open>EmptyDir\<close> is \<open>nil\<close>.\<close>

definition host_volume :: Volume where
  "host_volume = \<lparr>EmptyDir = None\<rparr>"

text \<open>A client every call of which fails.\<close>

definition broken_client :: "('c, 'h, 'n) client" where
  "broken_client =
     \<lparr>VolumeCreate = (\<lambda>tr body. Some (otherError ''daemon unreachable'')),
      NetworkCreate = (\<lambda>tr nid opts. Some (otherError ''daemon unreachable'')),
      ContainerKill = (\<lambda>tr cid sig. Some (otherError ''daemon unreachable'')),
      ContainerRemove = (\<lambda>tr cid opts. Some (otherError ''daemon unreachable'')),
      VolumeRemove = (\<lambda>tr vid force. Some (otherError ''daemon unreachable'')),
      NetworkRemove = (\<lambda>tr nid. Some (otherError ''daemon unreachable'')),
      ImagePull = (\<lambda>tr img opts. Some (otherError ''daemon unreachable'')),
      ContainerCreate = (\<lambda>tr cfg hcfg ncfg name. Some (otherError ''daemon unreachable'')),
      ContainerStart = (\<lambda>tr cid. Some (otherError ''daemon unreachable'')),
      ContainerLogs = (\<lambda>tr cid opts. Some (otherError ''daemon unreachable'')),
      ContainerWait = (\<lambda>tr cid cond. WaitError (otherError ''daemon unreachable'')),
      ContainerInspect = (\<lambda>tr cid. Inl (otherError ''daemon unreachable''))\<rparr>"

text \<open>The two requests of \<open>create\<close>.\<close>

definition create_request :: "('c, 'h, 'n) helpers \<Rightarrow> Spec \<Rightarrow> Step \<Rightarrow> ('c, 'h, 'n) request" where
  "create_request h spec step =
     ReqContainerCreate (toConfig h spec step) (toHostConfig h spec step) (toNetConfig h spec step)
       (Step.ID step)"

definition pull_request :: "('c, 'h, 'n) helpers \<Rightarrow> Step \<Rightarrow> ('c, 'h, 'n) request" where
  "pull_request h step = ReqImagePull (Image step) (pullopts h step)"

text \<open>The requests of the stages after \<open>create\<close>, in the order of Run.\<close>

definition stage_requests :: "Step \<Rightarrow> ('c, 'h, 'n) trace" where
  "stage_requests step =
     [ReqContainerStart (Step.ID step), ReqContainerLogs (Step.ID step) logsOpts,
      ReqContainerWait (Step.ID step) '''', ReqContainerInspect (Step.ID step)]"

text \<open>
  A client that has no image until one is pulled, a client that has no image and cannot
  reach the registry, a client whose container is still running when it is inspected,
  and a client that cannot start a container.
\<close>

definition missing_image_client :: "('c, 'h, 'n) client" where
  "missing_image_client =
     ok_client\<lparr>ContainerCreate := (\<lambda>tr cfg hcfg ncfg name.
        if list_ex is_ImagePull tr then None else Some (imageNotFoundError ''app:1.4.0''))\<rparr>"

definition registry_down_client :: "('c, 'h, 'n) client" where
  "registry_down_client =
     ok_client\<lparr>ContainerCreate := (\<lambda>tr cfg hcfg ncfg name. Some (imageNotFoundError ''app:1.4.0'')),
               ImagePull := (\<lambda>tr img opts. Some (otherError ''registry unreachable''))\<rparr>"

definition running_client :: "('c, 'h, 'n) client" where
  "running_client =
     ok_client\<lparr>ContainerInspect := (\<lambda>tr cid.
        Inr \<lparr>State = Some \<lparr>Running = True, ExitCode = 137, OOMKilled = True\<rparr>\<rparr>)\<rparr>"

definition start_fails_client :: "('c, 'h, 'n) client" where
  "start_fails_client =
     ok_client\<lparr>ContainerStart := (\<lambda>tr cid. Some (otherError ''cannot start container''))\<rparr>"

text \<open>A step whose image is \<open>latest\<close>.\<close>

definition latest_step :: Step where
  "latest_step = \<lparr>Step.ID = ''step2'', Image = ''app:latest'', Auth = None, Pull = PullDefault\<rparr>"

text \<open>A step whose image is no image reference, with the policy Always.\<close>

definition malformed_step :: Step where
  "malformed_step =
     \<lparr>Step.ID = ''step3'', Image = ''not an image'', Auth = None, Pull = PullAlways\<rparr>"

section \<open>Properties\<close>

subsection \<open>Traces\<close>

lemma issued_append [simp]: "issued tr (tr @ reqs) = reqs"
  by (simp add: issued_def)

lemma length_replies [simp]: "length (replies c tr rs) = length rs"
  by (induction rs arbitrary: tr) auto

lemma replies_Nil_iff [simp]: "replies c tr rs = [] \<longleftrightarrow> rs = []"
  by (cases rs) auto

lemma replies_append: "replies c tr (xs @ ys) = replies c tr xs @ replies c (tr @ xs) ys"
  by (induction xs arbitrary: tr) auto

lemma network_drivers_append:
  "network_drivers (xs @ ys) = network_drivers xs @ network_drivers ys"
  by (induction xs rule: network_drivers.induct) auto

subsection \<open>Setup\<close>

text \<open>
  What the loop over the volumes sends: creation requests only, all of them answered
  without error but possibly the last one, whose error is then the loop's result.
\<close>

lemma Setup_volumes_trace:
  "\<exists>reqs. snd (Setup_volumes c vols tr) = tr @ reqs \<and> list_all is_creation reqs \<and>
     network_drivers reqs = [] \<and>
     (case fst (Setup_volumes c vols tr) of
        None \<Rightarrow> list_all (\<lambda>x. x = None) (replies c tr reqs)
      | Some e \<Rightarrow> reqs \<noteq> [] \<and> list_all (\<lambda>x. x = None) (butlast (replies c tr reqs)) \<and>
                  last (replies c tr reqs) = Some e)"
proof (induction vols arbitrary: tr)
  case Nil
  show ?case by simp
next
  case (Cons vol vols)
  show ?case
  proof (cases "EmptyDir vol")
    case None
    with Cons.IH [of tr] show ?thesis by simp
  next
    case (Some ed)
    define body where "body = \<lparr>Name = VolumeEmptyDir.ID ed, VolumesCreateBody.Driver = ''local'',
                       VolumesCreateBody.Labels = VolumeEmptyDir.Labels ed\<rparr>"
    show ?thesis
    proof (cases "VolumeCreate c tr body")
      case None
      from Cons.IH [of "tr @ [ReqVolumeCreate body]"] obtain reqs where
        r: "snd (Setup_volumes c vols (tr @ [ReqVolumeCreate body])) = (tr @ [ReqVolumeCreate body]) @ reqs"
           "list_all is_creation reqs" "network_drivers reqs = []"
           "(case fst (Setup_volumes c vols (tr @ [ReqVolumeCreate body])) of
        None \<Rightarrow> list_all (\<lambda>x. x = None) (replies c (tr @ [ReqVolumeCreate body]) reqs)
      | Some e \<Rightarrow> reqs \<noteq> [] \<and> list_all (\<lambda>x. x = None) (butlast (replies c (tr @ [ReqVolumeCreate body]) reqs)) \<and>
                  last (replies c (tr @ [ReqVolumeCreate body]) reqs) = Some e)"
        by blast
      have eq: "Setup_volumes c (vol # vols) tr = Setup_volumes c vols (tr @ [ReqVolumeCreate body])"
        using Some None by (simp add: body_def Let_def)
      show ?thesis
        apply (rule exI [of _ "ReqVolumeCreate body # reqs"])
        using r None by (auto simp del: Setup_volumes.simps simp add: eq split: option.splits)
    next
      case (Some e)
      have eq: "Setup_volumes c (vol # vols) tr = (Some e, tr @ [ReqVolumeCreate body])"
        using \<open>EmptyDir vol = Some ed\<close> Some by (simp add: body_def Let_def)
      show ?thesis
        apply (rule exI [of _ "[ReqVolumeCreate body]"])
        using Some by (simp del: Setup_volumes.simps add: eq)
    qed
  qed
qed

lemma Setup_trace:
  fixes c :: "('c, 'h, 'n) client"
  shows "\<exists>reqs. snd (Setup c spec tr) = tr @ reqs \<and> reqs \<noteq> [] \<and> list_all is_creation reqs \<and>
     list_all (\<lambda>x. x = None) (butlast (replies c tr reqs)) \<and>
     fst (Setup c spec tr) = last (replies c tr reqs) \<and>
     network_drivers reqs =
       (if fst (Setup_volumes c (Volumes spec) tr) = None
        then [if OS (Platform spec) = ''windows'' then ''nat'' else ''bridge''] else [])"
proof -
  obtain reqs where
    r: "snd (Setup_volumes c (Volumes spec) tr) = tr @ reqs" "list_all is_creation reqs"
       "network_drivers reqs = []"
       "(case fst (Setup_volumes c (Volumes spec) tr) of
        None \<Rightarrow> list_all (\<lambda>x. x = None) (replies c tr reqs)
      | Some e \<Rightarrow> reqs \<noteq> [] \<and> list_all (\<lambda>x. x = None) (butlast (replies c tr reqs)) \<and>
                  last (replies c tr reqs) = Some e)"
    using Setup_volumes_trace [of c "Volumes spec" tr] by blast
  show ?thesis
  proof (cases "fst (Setup_volumes c (Volumes spec) tr)")
    case (Some e)
    then have "Setup c spec tr = (Some e, tr @ reqs)"
      using r(1) by (cases "Setup_volumes c (Volumes spec) tr") (simp add: Setup_def)
    with r Some show ?thesis
      by (intro exI [of _ reqs]) simp
  next
    case None
    define nc :: "('c, 'h, 'n) request" where "nc = ReqNetworkCreate (Network.ID (Network spec))
       \<lparr>NetworkCreate.Driver = (if OS (Platform spec) = ''windows'' then ''nat'' else ''bridge''),
        NetworkCreate.Labels = Network.Labels (Network spec)\<rparr>"
    have "Setup c spec tr = (reply_error c (tr @ reqs) nc, tr @ reqs @ [nc])"
      using r(1) None
      by (cases "Setup_volumes c (Volumes spec) tr") (simp add: Setup_def Let_def nc_def)
    with r None show ?thesis
      by (intro exI [of _ "reqs @ [nc]"])
         (simp add: replies_append network_drivers_append nc_def butlast_append)
  qed
qed

text \<open>
  Claim C7. For every Spec, the network that Setup creates uses the driver \<open>nat\<close>
  if and only if the platform OS of the Spec is \<open>windows\<close>, and the driver
  \<open>bridge\<close> in every other case. Setup sends the network-creation request exactly when
  no volume creation has failed before, and never more than one.
\<close>

theorem Setup_network_driver:
  "network_drivers (issued tr (snd (Setup c spec tr))) =
     (if fst (Setup_volumes c (Volumes spec) tr) = None
      then [if OS (Platform spec) = ''windows'' then ''nat'' else ''bridge''] else [])
   \<and> list_all (\<lambda>d. (d = ''nat'' \<longleftrightarrow> OS (Platform spec) = ''windows'') \<and>
                  (d = ''bridge'' \<longleftrightarrow> OS (Platform spec) \<noteq> ''windows''))
        (network_drivers (issued tr (snd (Setup c spec tr))))"
proof -
  obtain reqs where "snd (Setup c spec tr) = tr @ reqs"
    and "network_drivers reqs =
       (if fst (Setup_volumes c (Volumes spec) tr) = None
        then [if OS (Platform spec) = ''windows'' then ''nat'' else ''bridge''] else [])"
    using Setup_trace [of c spec tr] by blast
  then show ?thesis by simp
qed

theorem Setup_network_driver_witness:
  "network_drivers (issued [] (snd (Setup ok_client example_spec []))) = [''bridge'']
   \<and> network_drivers (issued [] (snd (Setup ok_client
        (example_spec\<lparr>Platform := \<lparr>OS = ''windows'', Arch = ''amd64''\<rparr>\<rparr>) []))) = [''nat'']"
  using Setup_network_driver [of "[]" ok_client example_spec]
    Setup_network_driver [of "[]" ok_client "example_spec\<lparr>Platform := \<lparr>OS = ''windows'', Arch = ''amd64''\<rparr>\<rparr>"]
  by (simp add: Setup_def ok_client_def example_spec_def disk_volume_def memory_volume_def issued_def)

text \<open>
  Claim C8. When a volume-creation or the network-creation call of Setup fails, Setup
  stops at once and returns that error: a request the client answers with an error is
  the last request Setup sends, and its error is what Setup returns. Setup sends
  creation requests only, so nothing created before the failure is removed again.
\<close>

theorem Setup_aborts_on_first_failure:
  "snd (Setup c spec tr) = tr @ issued tr (snd (Setup c spec tr))
   \<and> list_all is_creation (issued tr (snd (Setup c spec tr)))
   \<and> fst (Setup c spec tr) = last (replies c tr (issued tr (snd (Setup c spec tr))))
   \<and> (\<forall>i e. i < length (issued tr (snd (Setup c spec tr))) \<and>
         replies c tr (issued tr (snd (Setup c spec tr))) ! i = Some e \<longrightarrow>
         fst (Setup c spec tr) = Some e \<and> Suc i = length (issued tr (snd (Setup c spec tr))))"
proof -
  obtain reqs where r: "snd (Setup c spec tr) = tr @ reqs" "reqs \<noteq> []" "list_all is_creation reqs"
     "list_all (\<lambda>x. x = None) (butlast (replies c tr reqs))"
     "fst (Setup c spec tr) = last (replies c tr reqs)"
    using Setup_trace [of c spec tr] by blast
  have "fst (Setup c spec tr) = Some e \<and> Suc i = length reqs"
    if "i < length reqs" "replies c tr reqs ! i = Some e" for i e
  proof -
    have "\<not> i < length reqs - 1"
    proof
      assume "i < length reqs - 1"
      then have "butlast (replies c tr reqs) ! i = Some e" "i < length (butlast (replies c tr reqs))"
        using that by (simp_all add: nth_butlast)
      with r(4) show False by (auto simp: list_all_length)
    qed
    with that have i: "i = length reqs - 1" by simp
    then have "last (replies c tr reqs) = Some e"
      using that r(2) by (simp add: last_conv_nth)
    with r i show ?thesis by simp
  qed
  with r show ?thesis by auto
qed

theorem Setup_aborts_on_first_failure_witness:
  "issued [] (snd (Setup full_disk_client example_spec [])) =
     [ReqVolumeCreate \<lparr>Name = ''v1'', VolumesCreateBody.Driver = ''local'', VolumesCreateBody.Labels = Map.empty\<rparr>,
      ReqVolumeCreate \<lparr>Name = ''v2'', VolumesCreateBody.Driver = ''local'', VolumesCreateBody.Labels = Map.empty\<rparr>]
   \<and> replies full_disk_client [] (issued [] (snd (Setup full_disk_client example_spec []))) ! 1
       = Some (otherError ''no space left on device'')
   \<and> fst (Setup full_disk_client example_spec []) = Some (otherError ''no space left on device'')"
  using Setup_aborts_on_first_failure [of full_disk_client example_spec "[]"]
  by (simp add: Setup_def full_disk_client_def ok_client_def example_spec_def disk_volume_def
      memory_volume_def issued_def)

text \<open>
  The volume-creation requests of Setup are the creation requests of the volumes that
  have an \<open>EmptyDir\<close>, in order, up to the first one that fails.
\<close>

lemma Setup_volumes_prefix:
  "\<exists>n. snd (Setup_volumes c vols tr) =
         tr @ take n (map VolumeCreate_request (List.map_filter EmptyDir vols))"
proof (induction vols arbitrary: tr)
  case Nil
  show ?case by simp
next
  case (Cons vol vols)
  show ?case
  proof (cases "EmptyDir vol")
    case None
    with Cons.IH [of tr] show ?thesis by (simp add: List.map_filter_simps)
  next
    case (Some ed)
    show ?thesis
    proof (cases "VolumeCreate c tr \<lparr>Name = VolumeEmptyDir.ID ed, VolumesCreateBody.Driver = ''local'',
                      VolumesCreateBody.Labels = VolumeEmptyDir.Labels ed\<rparr>")
      case None
      from Cons.IH [of "tr @ [VolumeCreate_request ed]"] obtain n where
        "snd (Setup_volumes c vols (tr @ [VolumeCreate_request ed])) =
           tr @ VolumeCreate_request ed # take n (map VolumeCreate_request (List.map_filter EmptyDir vols))"
        by auto
      with Some None show ?thesis
        by (intro exI [of _ "Suc n"])
           (simp add: List.map_filter_simps Let_def VolumeCreate_request_def [symmetric])
    next
      case (Some e)
      with \<open>EmptyDir vol = Some ed\<close> show ?thesis
        by (intro exI [of _ "Suc 0"])
           (simp add: List.map_filter_simps Let_def VolumeCreate_request_def [symmetric])
    qed
  qed
qed

lemma is_VolumeCreate_request [simp]: "is_VolumeCreate (VolumeCreate_request ed)"
  by (simp add: VolumeCreate_request_def)

lemma Setup_volume_creates:
  "\<exists>n. filter is_VolumeCreate (issued tr (snd (Setup c spec tr))) =
         take n (map VolumeCreate_request (List.map_filter EmptyDir (Volumes spec)))"
proof -
  obtain n where n: "snd (Setup_volumes c (Volumes spec) tr) =
         tr @ take n (map VolumeCreate_request (List.map_filter EmptyDir (Volumes spec)))"
    using Setup_volumes_prefix [of c "Volumes spec" tr] by blast
  have all: "filter is_VolumeCreate (take n (map VolumeCreate_request eds)) =
      take n (map VolumeCreate_request eds)" for eds :: "VolumeEmptyDir list"
    by (rule filter_True) (auto dest!: in_set_takeD)
  show ?thesis
    using n by (cases "Setup_volumes c (Volumes spec) tr")
      (auto simp: Setup_def Let_def all split: option.splits intro!: exI [of _ n])
qed

lemma length_map_filter_EmptyDir:
  "length (List.map_filter EmptyDir vols) = length (filter (\<lambda>v. EmptyDir v \<noteq> None) vols)"
  by (simp add: List.map_filter_def)

lemma count_VolumeCreate_Setup:
  "length (filter is_VolumeCreate (issued tr (snd (Setup c spec tr))))
     \<le> length (filter (\<lambda>v. EmptyDir v \<noteq> None) (Volumes spec))"
proof -
  obtain n where "filter is_VolumeCreate (issued tr (snd (Setup c spec tr))) =
         take n (map VolumeCreate_request (List.map_filter EmptyDir (Volumes spec)))"
    using Setup_volume_creates [of tr c spec] by blast
  then show ?thesis by (simp add: length_map_filter_EmptyDir)
qed

lemma Setup_volumes_skip:
  "EmptyDir v = None \<Longrightarrow> Setup_volumes c (xs @ v # ys) tr = Setup_volumes c (xs @ ys) tr"
  by (induction xs arbitrary: tr) (simp_all add: Let_def split: option.splits)

text \<open>
  Claim C3. For a Spec with exactly the two volumes \<open>EmptyDir v1\<close> on disk and
  \<open>EmptyDir v2\<close> in memory, Setup is claimed to send exactly one volume-creation
  request, the one for \<open>v1\<close>. Setup does not read the medium: with a client that
  creates \<open>v1\<close> it goes on and sends a creation request for \<open>v2\<close> as well.
\<close>

theorem Setup_creates_memory_volume:
  "filter is_VolumeCreate (issued [] (snd (Setup ok_client example_spec []))) =
     [ReqVolumeCreate \<lparr>Name = ''v1'', VolumesCreateBody.Driver = ''local'', VolumesCreateBody.Labels = Map.empty\<rparr>,
      ReqVolumeCreate \<lparr>Name = ''v2'', VolumesCreateBody.Driver = ''local'', VolumesCreateBody.Labels = Map.empty\<rparr>]"
  by (simp add: Setup_def ok_client_def example_spec_def disk_volume_def memory_volume_def issued_def)

subsection \<open>Destroy\<close>

text \<open>The requests of Destroy: they depend on the Spec alone, not on any reply.\<close>

lemma Destroy_kill_trace:
  "Destroy_kill c steps tr = tr @ map (\<lambda>step. ReqContainerKill (Step.ID step) ''9'') steps"
  by (induction steps arbitrary: tr) simp_all

lemma Destroy_remove_trace:
  "Destroy_remove c steps tr = tr @ map (\<lambda>step. ReqContainerRemove (Step.ID step) removeOpts) steps"
  by (induction steps arbitrary: tr) simp_all

lemma Destroy_volumes_trace:
  "Destroy_volumes c vols tr =
     tr @ map (\<lambda>ed. ReqVolumeRemove (VolumeEmptyDir.ID ed) True)
            (filter (\<lambda>ed. Medium ed \<noteq> ''memory'') (List.map_filter EmptyDir vols))"
  by (induction vols arbitrary: tr) (simp_all add: List.map_filter_simps split: option.splits)

lemma Destroy_trace:
  "Destroy c spec tr =
     (None,
      tr @ map (\<lambda>step. ReqContainerKill (Step.ID step) ''9'') (Steps spec)
         @ map (\<lambda>step. ReqContainerRemove (Step.ID step) removeOpts) (Steps spec)
         @ map (\<lambda>ed. ReqVolumeRemove (VolumeEmptyDir.ID ed) True)
             (filter (\<lambda>ed. Medium ed \<noteq> ''memory'') (List.map_filter EmptyDir (Volumes spec)))
         @ [ReqNetworkRemove (Network.ID (Network spec))])"
  by (simp add: Destroy_def Destroy_kill_trace Destroy_remove_trace Destroy_volumes_trace)

lemma Destroy_volumes_skip:
  "EmptyDir v = None \<Longrightarrow> Destroy_volumes c (xs @ v # ys) tr = Destroy_volumes c (xs @ ys) tr"
  by (induction xs arbitrary: tr) (simp_all add: Let_def split: option.splits)

lemma count_VolumeRemove_Destroy:
  "length (filter is_VolumeRemove (issued tr (snd (Destroy c spec tr))))
     \<le> length (filter (\<lambda>v. EmptyDir v \<noteq> None) (Volumes spec))"
proof -
  have "length (filter is_VolumeRemove (issued tr (snd (Destroy c spec tr))))
      \<le> length (List.map_filter EmptyDir (Volumes spec))"
    by (simp add: Destroy_trace filter_map comp_def)
  then show ?thesis by (simp add: length_map_filter_EmptyDir)
qed

text \<open>
  Claim C4. For every Spec and every client, so for every combination of failures of
  the kill, remove, volume-remove and network-remove calls, Destroy returns no error.
\<close>

theorem Destroy_returns_no_error: "fst (Destroy c spec tr) = None"
  by (simp add: Destroy_def)

theorem Destroy_returns_no_error_witness:
  "fst (Destroy broken_client example_spec []) = None
   \<and> replies broken_client [] (issued [] (snd (Destroy broken_client example_spec []))) =
       [Some (otherError ''daemon unreachable''), Some (otherError ''daemon unreachable''),
        Some (otherError ''daemon unreachable''), Some (otherError ''daemon unreachable'')]"
  using Destroy_returns_no_error [of broken_client example_spec "[]"]
  by (simp add: Destroy_def broken_client_def example_spec_def example_step_def disk_volume_def
      memory_volume_def issued_def)

text \<open>
  Claim C5. Destroy sends a volume-removal request for a volume if and only if the
  volume has an \<open>EmptyDir\<close> whose medium is not \<open>memory\<close>: its volume-removal
  requests are, in the order of the volumes, one request for each such volume and no
  other. A memory volume gets none, whatever other volumes are removed.
\<close>

theorem Destroy_volume_removals:
  "filter is_VolumeRemove (issued tr (snd (Destroy c spec tr))) =
     map (\<lambda>ed. ReqVolumeRemove (VolumeEmptyDir.ID ed) True)
       (filter (\<lambda>ed. Medium ed \<noteq> ''memory'') (List.map_filter EmptyDir (Volumes spec)))"
  by (simp add: Destroy_trace filter_map comp_def)

theorem Destroy_volume_removals_witness:
  "filter is_VolumeRemove (issued [] (snd (Destroy ok_client example_spec []))) = [ReqVolumeRemove ''v1'' True]"
  using Destroy_volume_removals [of "[]" ok_client example_spec]
  by (simp add: example_spec_def disk_volume_def memory_volume_def List.map_filter_simps)

text \<open>
  Claim C10. A volume whose \<open>EmptyDir\<close> is \<open>nil\<close> makes Setup send no
  volume-creation request and Destroy no volume-removal request, whatever the other
  volumes are: with such a volume anywhere in the list, Setup and Destroy send the
  requests, and return the result, that they do without it, and the number of their
  volume requests is at most the number of the other volumes that have an
  \<open>EmptyDir\<close>.
\<close>

theorem nil_EmptyDir_volume_sends_nothing:
  assumes "EmptyDir v = None"
  shows "Setup c (spec\<lparr>Volumes := xs @ v # ys\<rparr>) tr = Setup c (spec\<lparr>Volumes := xs @ ys\<rparr>) tr
    \<and> Destroy c (spec\<lparr>Volumes := xs @ v # ys\<rparr>) tr = Destroy c (spec\<lparr>Volumes := xs @ ys\<rparr>) tr
    \<and> length (filter is_VolumeCreate (issued tr (snd (Setup c (spec\<lparr>Volumes := xs @ v # ys\<rparr>) tr))))
        \<le> length (filter (\<lambda>w. EmptyDir w \<noteq> None) (xs @ ys))
    \<and> length (filter is_VolumeRemove (issued tr (snd (Destroy c (spec\<lparr>Volumes := xs @ v # ys\<rparr>) tr))))
        \<le> length (filter (\<lambda>w. EmptyDir w \<noteq> None) (xs @ ys))"
proof -
  have s: "Setup c (spec\<lparr>Volumes := xs @ v # ys\<rparr>) tr = Setup c (spec\<lparr>Volumes := xs @ ys\<rparr>) tr"
    using assms by (simp add: Setup_def Setup_volumes_skip split: prod.splits option.splits)
  have d: "Destroy c (spec\<lparr>Volumes := xs @ v # ys\<rparr>) tr = Destroy c (spec\<lparr>Volumes := xs @ ys\<rparr>) tr"
    using assms by (simp add: Destroy_def Destroy_volumes_skip)
  show ?thesis
    using count_VolumeCreate_Setup [of tr c "spec\<lparr>Volumes := xs @ ys\<rparr>"]
      count_VolumeRemove_Destroy [of tr c "spec\<lparr>Volumes := xs @ ys\<rparr>"]
    by (simp add: s d)
qed

theorem nil_EmptyDir_volume_sends_nothing_witness:
  "EmptyDir host_volume = None
   \<and> issued [] (snd (Setup ok_client (example_spec\<lparr>Volumes := [disk_volume] @ host_volume # [memory_volume]\<rparr>) []))
     = issued [] (snd (Setup ok_client example_spec []))
   \<and> issued [] (snd (Destroy ok_client (example_spec\<lparr>Volumes := [disk_volume] @ host_volume # [memory_volume]\<rparr>) []))
     = [ReqContainerKill ''step1'' ''9'', ReqContainerRemove ''step1'' removeOpts,
        ReqVolumeRemove ''v1'' True, ReqNetworkRemove ''net'']"
  using nil_EmptyDir_volume_sends_nothing [where v = host_volume and c = ok_client
      and spec = example_spec and xs = "[disk_volume]" and ys = "[memory_volume]" and tr = "[]"]
  by (simp add: host_volume_def example_spec_def disk_volume_def memory_volume_def Destroy_def
      Setup_def ok_client_def example_step_def issued_def)

subsection \<open>create\<close>

lemma is_ContainerCreate_simps [simp]:
  "is_ContainerCreate (create_request h spec step)" "\<not> is_ContainerCreate (pull_request h step)"
  by (simp_all add: create_request_def pull_request_def)

lemma create_pull_distinct [simp]:
  "create_request h spec step \<noteq> pull_request h step" "pull_request h step \<noteq> create_request h spec step"
  by (simp_all add: create_request_def pull_request_def)

lemma reply_error_requests [simp]:
  "reply_error c tr (pull_request h step) = ImagePull c tr (Image step) (pullopts h step)"
  "reply_error c tr (create_request h spec step) =
     ContainerCreate c tr (toConfig h spec step) (toHostConfig h spec step) (toNetConfig h spec step)
       (Step.ID step)"
  by (simp_all add: create_request_def pull_request_def)

text \<open>
  A reference that does not parse ends \<open>create\<close> before any request. For one that
  parses, \<open>create\<close> takes one of four courses: the proactive pull fails; the
  container is created, or fails to be, at the first attempt; the pull after a missing
  image fails; the container is created, or fails to be, at the second attempt.
\<close>

lemma create_parse_error:
  "parseImage h (Image step) = Inl e \<Longrightarrow> create h c spec step tr = (Some e, tr)"
  by (simp add: create_def)

lemma create_shape:
  fixes h :: "('c, 'h, 'n) helpers" and c :: "('c, 'h, 'n) client" and spec :: Spec and step :: Step
    and tr :: "('c, 'h, 'n) trace"
  assumes p: "parseImage h (Image step) = Inr (domain, name, latest)"
  defines "pre \<equiv> (if Pull step = PullAlways \<or> (Pull step = PullDefault \<and> latest) then [pull_request h step] else [])"
  defines "cc \<equiv> create_request h spec step" and "pull \<equiv> pull_request h step"
  shows "(\<exists>e. pre = [pull] \<and> reply_error c tr pull = Some e \<and>
            create h c spec step tr = (Some e, tr @ [pull]))
       \<or> (list_all (\<lambda>x. x = None) (replies c tr pre) \<and>
           \<not> (IsErrImageNotFound (reply_error c (tr @ pre) cc) \<and> Pull step \<noteq> PullNever) \<and>
           create h c spec step tr = (reply_error c (tr @ pre) cc, tr @ pre @ [cc]))
       \<or> (\<exists>e. list_all (\<lambda>x. x = None) (replies c tr pre) \<and>
           IsErrImageNotFound (reply_error c (tr @ pre) cc) \<and> Pull step \<noteq> PullNever \<and>
           reply_error c (tr @ pre @ [cc]) pull = Some e \<and>
           create h c spec step tr = (Some e, tr @ pre @ [cc, pull]))
       \<or> (list_all (\<lambda>x. x = None) (replies c tr pre) \<and>
           IsErrImageNotFound (reply_error c (tr @ pre) cc) \<and> Pull step \<noteq> PullNever \<and>
           reply_error c (tr @ pre @ [cc]) pull = None \<and>
           create h c spec step tr = (reply_error c (tr @ pre @ [cc, pull]) cc, tr @ pre @ [cc, pull, cc]))"
  unfolding pre_def cc_def pull_def
  using p
  by (simp add: create_def Let_def create_request_def pull_request_def split: option.splits)


lemma create_requests_cases:
  fixes h :: "('c, 'h, 'n) helpers" and c :: "('c, 'h, 'n) client" and spec :: Spec and step :: Step
    and tr :: "('c, 'h, 'n) trace"
  defines "cc \<equiv> create_request h spec step" and "pull \<equiv> pull_request h step"
  obtains
    (parse) e where "create h c spec step tr = (Some e, tr)"
  | (pulled) e pre where "pre = [pull]" "reply_error c tr pull = Some e"
      "create h c spec step tr = (Some e, tr @ [pull])"
  | (once) pre where "pre = [] \<or> pre = [pull]"
      "\<not> (IsErrImageNotFound (reply_error c (tr @ pre) cc) \<and> Pull step \<noteq> PullNever)"
      "create h c spec step tr = (reply_error c (tr @ pre) cc, tr @ pre @ [cc])"
  | (repull) e pre where "pre = [] \<or> pre = [pull]"
      "IsErrImageNotFound (reply_error c (tr @ pre) cc)" "Pull step \<noteq> PullNever"
      "reply_error c (tr @ pre @ [cc]) pull = Some e"
      "create h c spec step tr = (Some e, tr @ pre @ [cc, pull])"
  | (twice) pre where "pre = [] \<or> pre = [pull]"
      "IsErrImageNotFound (reply_error c (tr @ pre) cc)" "Pull step \<noteq> PullNever"
      "reply_error c (tr @ pre @ [cc]) pull = None"
      "create h c spec step tr = (reply_error c (tr @ pre @ [cc, pull]) cc, tr @ pre @ [cc, pull, cc])"
proof (cases "parseImage h (Image step)")
  case (Inl e)
  then show ?thesis using parse create_parse_error by blast
next
  case (Inr t)
  obtain domain name latest where "t = (domain, name, latest)" by (cases t) auto
  with Inr have p: "parseImage h (Image step) = Inr (domain, name, latest)" by simp
  define pre where "pre = (if Pull step = PullAlways \<or> (Pull step = PullDefault \<and> latest) then [pull] else [])"
  have pre: "pre = [] \<or> pre = [pull]" by (simp add: pre_def)
  from create_shape [OF p, where c = c and spec = spec and tr = tr, folded cc_def pull_def, folded pre_def]
  show ?thesis
    using pre pulled once repull twice by blast
qed

lemmas sample_defs =
  example_helpers_def example_spec_def example_step_def latest_step_def ok_client_def
  missing_image_client_def registry_down_client_def create_request_def pull_request_def
  pullopts_def issued_def

text \<open>
  Claim C1. For every Spec, Step and pull policy, \<open>create\<close> retries the creation of
  the container at most once: it sends at most two creation requests. It sends a
  second one only when the first has failed with an image-not-found error and the pull
  policy is not Never; the second is preceded by an image pull that has succeeded, it
  is the last request, and its reply, an error included, is what \<open>create\<close> returns.
  When the pull after the first attempt fails, \<open>create\<close> returns that error and
  sends nothing more.
\<close>

theorem create_retries_at_most_once:
  fixes h :: "('c, 'h, 'n) helpers" and c :: "('c, 'h, 'n) client" and spec :: Spec and step :: Step
    and tr :: "('c, 'h, 'n) trace"
  defines "reqs \<equiv> issued tr (snd (create h c spec step tr))"
    and "res \<equiv> fst (create h c spec step tr)"
  shows "length (filter is_ContainerCreate reqs) \<le> 2
    \<and> (length (filter is_ContainerCreate reqs) = 2 \<longrightarrow>
         (\<exists>pre. reqs = pre @ [create_request h spec step, pull_request h step, create_request h spec step]
            \<and> \<not> list_ex is_ContainerCreate pre
            \<and> IsErrImageNotFound (reply_error c (tr @ pre) (create_request h spec step))
            \<and> Pull step \<noteq> PullNever
            \<and> reply_error c (tr @ pre @ [create_request h spec step]) (pull_request h step) = None
            \<and> res = reply_error c (tr @ pre @ [create_request h spec step, pull_request h step])
                       (create_request h spec step)))
    \<and> (\<forall>pre post e.
          reqs = pre @ create_request h spec step # pull_request h step # post \<and>
          reply_error c (tr @ pre @ [create_request h spec step]) (pull_request h step) = Some e \<longrightarrow>
          post = [] \<and> res = Some e)"
proof (cases h c spec step tr rule: create_requests_cases)
  case (parse e)
  then show ?thesis by (simp add: reqs_def res_def issued_def)
next
  case (pulled e pre)
  then show ?thesis
    by (auto simp: reqs_def res_def append_eq_Cons_conv Cons_eq_append_conv)
next
  case (once pre)
  then show ?thesis
    by (auto simp: reqs_def res_def append_eq_Cons_conv Cons_eq_append_conv)
next
  case (repull e pre)
  then show ?thesis
    by (auto simp: reqs_def res_def append_eq_Cons_conv Cons_eq_append_conv)
next
  case (twice pre)
  have "\<exists>pre. reqs = pre @ [create_request h spec step, pull_request h step, create_request h spec step]
            \<and> \<not> list_ex is_ContainerCreate pre
            \<and> IsErrImageNotFound (reply_error c (tr @ pre) (create_request h spec step))
            \<and> Pull step \<noteq> PullNever
            \<and> reply_error c (tr @ pre @ [create_request h spec step]) (pull_request h step) = None
            \<and> res = reply_error c (tr @ pre @ [create_request h spec step, pull_request h step])
                       (create_request h spec step)"
    using twice by (intro exI [of _ pre]) (auto simp: reqs_def res_def)
  moreover have "length (filter is_ContainerCreate reqs) \<le> 2"
    using twice by (auto simp: reqs_def)
  moreover have "\<forall>pre post e.
          reqs = pre @ create_request h spec step # pull_request h step # post \<and>
          reply_error c (tr @ pre @ [create_request h spec step]) (pull_request h step) = Some e \<longrightarrow>
          post = [] \<and> res = Some e"
    using twice by (auto simp: reqs_def res_def append_eq_Cons_conv Cons_eq_append_conv)
  ultimately show ?thesis by blast
qed

theorem create_retries_at_most_once_witness:
  "issued [] (snd (create example_helpers missing_image_client example_spec example_step [])) =
     [create_request example_helpers example_spec example_step,
      pull_request example_helpers example_step,
      create_request example_helpers example_spec example_step]
   \<and> fst (create example_helpers missing_image_client example_spec example_step []) = None
   \<and> issued [] (snd (create example_helpers registry_down_client example_spec example_step [])) =
     [create_request example_helpers example_spec example_step,
      pull_request example_helpers example_step]
   \<and> fst (create example_helpers registry_down_client example_spec example_step [])
       = Some (otherError ''registry unreachable'')
   \<and> issued [] (snd (create example_helpers missing_image_client example_spec
                        (example_step\<lparr>Pull := PullNever\<rparr>) [])) =
     [create_request example_helpers example_spec (example_step\<lparr>Pull := PullNever\<rparr>)]
   \<and> fst (create example_helpers missing_image_client example_spec
             (example_step\<lparr>Pull := PullNever\<rparr>) [])
       = Some (imageNotFoundError ''app:1.4.0'')"
  using create_retries_at_most_once [of "[]" example_helpers missing_image_client example_spec example_step]
    create_retries_at_most_once [of "[]" example_helpers registry_down_client example_spec example_step]
  by (simp add: create_def Let_def sample_defs)

text \<open>
  Claim C2, amended. For every Step whose image reference parses, with \<open>latest\<close>
  the flag that \<open>parseImage\<close> returns for it (the tag is \<open>latest\<close> or absent),
  \<open>create\<close> pulls the image before the first attempt to create the container if and
  only if the pull policy is Always, or it is Default and \<open>latest\<close> holds: then the
  first request is the pull, otherwise it is the creation request. When this pull
  fails, \<open>create\<close> returns its error and the pull is the only request.
\<close>

theorem create_proactive_pull:
  fixes h :: "('c, 'h, 'n) helpers" and c :: "('c, 'h, 'n) client" and spec :: Spec and step :: Step
    and tr :: "('c, 'h, 'n) trace"
  assumes p: "parseImage h (Image step) = Inr (domain, name, latest)"
  defines "reqs \<equiv> issued tr (snd (create h c spec step tr))"
    and "res \<equiv> fst (create h c spec step tr)"
  shows "((\<exists>rest. reqs = pull_request h step # rest) \<longleftrightarrow>
            Pull step = PullAlways \<or> (Pull step = PullDefault \<and> latest))
    \<and> ((\<exists>rest. reqs = create_request h spec step # rest) \<longleftrightarrow>
            \<not> (Pull step = PullAlways \<or> (Pull step = PullDefault \<and> latest)))
    \<and> (\<forall>e. (Pull step = PullAlways \<or> (Pull step = PullDefault \<and> latest)) \<and>
             ImagePull c tr (Image step) (pullopts h step) = Some e \<longrightarrow>
             res = Some e \<and> reqs = [pull_request h step])"
  using create_shape [OF p, where c = c and spec = spec and tr = tr]
  by (auto simp: reqs_def res_def split: if_splits)

theorem create_proactive_pull_witness:
  "parseImage example_helpers (Image latest_step) = Inr (''docker.io'', ''library/app'', True)
   \<and> issued [] (snd (create example_helpers ok_client example_spec latest_step [])) =
     [pull_request example_helpers latest_step, create_request example_helpers example_spec latest_step]
   \<and> parseImage example_helpers (Image example_step) = Inr (''docker.io'', ''library/app'', False)
   \<and> issued [] (snd (create example_helpers ok_client example_spec example_step [])) =
     [create_request example_helpers example_spec example_step]
   \<and> issued [] (snd (create example_helpers registry_down_client example_spec
                        (example_step\<lparr>Pull := PullAlways\<rparr>) [])) =
     [pull_request example_helpers (example_step\<lparr>Pull := PullAlways\<rparr>)]
   \<and> fst (create example_helpers registry_down_client example_spec
             (example_step\<lparr>Pull := PullAlways\<rparr>) [])
       = Some (otherError ''registry unreachable'')"
proof -
  have p1: "parseImage example_helpers (Image latest_step) = Inr (''docker.io'', ''library/app'', True)"
    by (simp add: example_helpers_def latest_step_def)
  have p2: "parseImage example_helpers (Image example_step) = Inr (''docker.io'', ''library/app'', False)"
    by (simp add: example_helpers_def example_step_def)
  have p3: "parseImage example_helpers (Image (example_step\<lparr>Pull := PullAlways\<rparr>))
      = Inr (''docker.io'', ''library/app'', False)"
    by (simp add: example_helpers_def example_step_def)
  show ?thesis
    using p1 p2
      create_proactive_pull [OF p1, where c = ok_client and spec = example_spec and tr = "[]"]
      create_proactive_pull [OF p2, where c = ok_client and spec = example_spec and tr = "[]"]
      create_proactive_pull [OF p3, where c = registry_down_client and spec = example_spec and tr = "[]"]
    by (simp add: create_def Let_def sample_defs)
qed

text \<open>
  The condition on the reference is needed. The claim is stated for every Step, but
  \<open>create\<close> parses the reference first and returns the error of \<open>parseImage\<close>
  before it sends anything: for a Step whose reference does not parse there is no
  pull, whatever the policy, Always included.
\<close>

theorem create_proactive_pull_counterexample:
  "Pull malformed_step = PullAlways
   \<and> create example_helpers ok_client example_spec malformed_step [] =
       (Some (otherError ''invalid reference format''), [])
   \<and> \<not> ((\<exists>rest. issued [] (snd (create example_helpers ok_client example_spec malformed_step []))
                  = pull_request example_helpers malformed_step # rest)
          \<longleftrightarrow> Pull malformed_step = PullAlways)"
  by (simp add: create_def malformed_step_def example_helpers_def issued_def)

subsection \<open>wait\<close>

text \<open>
  Claim C6. Whenever \<open>wait\<close> returns without an error, the State it returns has
  \<open>Exited\<close> true, and its exit code and OOM-killed flag are those of the one
  inspection of the container made right after one of the two channels of
  \<open>ContainerWait\<close> has delivered, whether or not that inspection reports the
  container as running.
\<close>

theorem wait_state_from_inspection:
  assumes "wait c id' tr = (Return (st, None), tr')"
  shows "\<exists>info cs.
      ContainerWait c tr id' '''' \<noteq> WaitNothing
    \<and> ContainerInspect c (tr @ [ReqContainerWait id' '''']) id' = Inr info
    \<and> ContainerJSON.State info = Some cs
    \<and> st = Some \<lparr>Exited = True, State.ExitCode = ContainerState.ExitCode cs,
                   State.OOMKilled = ContainerState.OOMKilled cs\<rparr>
    \<and> tr' = tr @ [ReqContainerWait id' '''', ReqContainerInspect id']
    \<and> length (filter is_ContainerInspect (issued tr tr')) = 1"
  using assms
  by (auto simp: wait_def Let_def issued_def split: wait_channels.splits sum.splits option.splits)

theorem wait_state_from_inspection_witness:
  "wait running_client ''step1'' [] =
     (Return (Some \<lparr>Exited = True, State.ExitCode = 137, State.OOMKilled = True\<rparr>, None),
      [ReqContainerWait ''step1'' '''', ReqContainerInspect ''step1''])
   \<and> (\<exists>info cs. ContainerInspect running_client [ReqContainerWait ''step1'' ''''] ''step1'' = Inr info
         \<and> ContainerJSON.State info = Some cs \<and> Running cs
         \<and> ContainerState.ExitCode cs = 137 \<and> ContainerState.OOMKilled cs)"
proof -
  have w: "wait running_client ''step1'' [] =
     (Return (Some \<lparr>Exited = True, State.ExitCode = 137, State.OOMKilled = True\<rparr>, None),
      [ReqContainerWait ''step1'' '''', ReqContainerInspect ''step1''])"
    by (simp add: wait_def running_client_def ok_client_def)
  from wait_state_from_inspection [OF w] w show ?thesis
    by (auto simp: running_client_def ok_client_def)
qed

lemma wait_result:
  "wait c id' tr = (Return (st, err), tr') \<Longrightarrow> (st = None) \<noteq> (err = None)"
  by (auto simp: wait_def Let_def split: wait_channels.splits sum.splits option.splits)

subsection \<open>Run\<close>

lemma wait_trace:
  "snd (wait c id' tr) = tr @ [ReqContainerWait id' ''''] \<or>
   snd (wait c id' tr) = tr @ [ReqContainerWait id' '''', ReqContainerInspect id']"
  by (auto simp: wait_def Let_def split: wait_channels.splits sum.splits option.splits)

lemma Run_trace:
  "\<exists>n. snd (Run h c spec step tr) = snd (create h c spec step tr) @ take n (stage_requests step)"
proof (cases "create h c spec step tr")
  case (Pair cerr tr1)
  let ?id = "Step.ID step"
  let ?tr2 = "tr1 @ [ReqContainerStart ?id]"
  let ?tr3 = "tr1 @ [ReqContainerStart ?id, ReqContainerLogs ?id logsOpts]"
  show ?thesis
  proof (cases cerr)
    case (Some e)
    with Pair show ?thesis by (simp add: Run_def)
  next
    case None
    note c = this
    show ?thesis
    proof (cases "ContainerStart c tr1 ?id")
      case (Some e)
      with Pair c show ?thesis
        by (intro exI [of _ 1]) (simp add: Run_def start_def stage_requests_def)
    next
      case None
      note s = this
      show ?thesis
      proof (cases "ContainerLogs c ?tr2 ?id logsOpts")
        case (Some e)
        with Pair c s show ?thesis
          by (intro exI [of _ 2]) (simp add: Run_def start_def tail_def stage_requests_def)
      next
        case None
        have r: "Run h c spec step tr = wait c ?id ?tr3"
          using Pair c s None by (simp add: Run_def start_def tail_def)
        from wait_trace [of c ?id ?tr3] show ?thesis
        proof
          assume "snd (wait c ?id ?tr3) = ?tr3 @ [ReqContainerWait ?id '''']"
          with Pair r show ?thesis
            by (intro exI [of _ 3]) (simp add: stage_requests_def)
        next
          assume "snd (wait c ?id ?tr3) =
            ?tr3 @ [ReqContainerWait ?id '''', ReqContainerInspect ?id]"
          with Pair r show ?thesis
            by (intro exI [of _ 4]) (simp add: stage_requests_def)
        qed
      qed
    qed
  qed
qed

text \<open>
  Claim C9. For every Spec and Step, Run goes through create, start, tail and wait in
  this order, each stage starting from the trace the stage before has left. When a
  stage returns an error, Run returns that error with no State and the trace of that
  stage, so no later stage has sent anything; Run returns a State only when create,
  start and tail have all succeeded, and then it is the State of \<open>wait\<close>. The
  writer Run passes on to \<open>tail\<close> receives the log in a goroutine of its own, which
  is not part of the model.
\<close>

theorem Run_stages_in_order:
  "(\<forall>e tr1. create h c spec step tr = (Some e, tr1) \<longrightarrow>
       Run h c spec step tr = (Return (None, Some e), tr1))
   \<and> (\<forall>e tr1 tr2. create h c spec step tr = (None, tr1) \<and> start c (Step.ID step) tr1 = (Some e, tr2) \<longrightarrow>
       Run h c spec step tr = (Return (None, Some e), tr2))
   \<and> (\<forall>e tr1 tr2 tr3. create h c spec step tr = (None, tr1) \<and> start c (Step.ID step) tr1 = (None, tr2) \<and>
         tail c (Step.ID step) tr2 = (Some e, tr3) \<longrightarrow>
       Run h c spec step tr = (Return (None, Some e), tr3))
   \<and> (\<forall>tr1 tr2 tr3. create h c spec step tr = (None, tr1) \<and> start c (Step.ID step) tr1 = (None, tr2) \<and>
         tail c (Step.ID step) tr2 = (None, tr3) \<longrightarrow>
       Run h c spec step tr = wait c (Step.ID step) tr3)
   \<and> (\<forall>st err tr'. Run h c spec step tr = (Return (Some st, err), tr') \<longrightarrow>
       err = None \<and>
       (\<exists>tr1 tr2 tr3. create h c spec step tr = (None, tr1) \<and> start c (Step.ID step) tr1 = (None, tr2) \<and>
          tail c (Step.ID step) tr2 = (None, tr3) \<and>
          wait c (Step.ID step) tr3 = (Return (Some st, None), tr')))
   \<and> (\<forall>st e tr'. Run h c spec step tr = (Return (st, Some e), tr') \<longrightarrow> st = None)
   \<and> (\<exists>n. snd (Run h c spec step tr) = snd (create h c spec step tr) @ take n (stage_requests step))"
proof -
  have 1: "\<forall>e tr1. create h c spec step tr = (Some e, tr1) \<longrightarrow>
       Run h c spec step tr = (Return (None, Some e), tr1)"
    by (simp add: Run_def)
  have 2: "\<forall>e tr1 tr2. create h c spec step tr = (None, tr1) \<and> start c (Step.ID step) tr1 = (Some e, tr2) \<longrightarrow>
       Run h c spec step tr = (Return (None, Some e), tr2)"
    by (simp add: Run_def)
  have 3: "\<forall>e tr1 tr2 tr3. create h c spec step tr = (None, tr1) \<and> start c (Step.ID step) tr1 = (None, tr2) \<and>
         tail c (Step.ID step) tr2 = (Some e, tr3) \<longrightarrow>
       Run h c spec step tr = (Return (None, Some e), tr3)"
    by (simp add: Run_def)
  have 4: "\<forall>tr1 tr2 tr3. create h c spec step tr = (None, tr1) \<and> start c (Step.ID step) tr1 = (None, tr2) \<and>
         tail c (Step.ID step) tr2 = (None, tr3) \<longrightarrow>
       Run h c spec step tr = wait c (Step.ID step) tr3"
    by (simp add: Run_def)
  have 5: "\<forall>st err tr'. Run h c spec step tr = (Return (Some st, err), tr') \<longrightarrow>
       err = None \<and>
       (\<exists>tr1 tr2 tr3. create h c spec step tr = (None, tr1) \<and> start c (Step.ID step) tr1 = (None, tr2) \<and>
          tail c (Step.ID step) tr2 = (None, tr3) \<and>
          wait c (Step.ID step) tr3 = (Return (Some st, None), tr'))"
    by (auto simp: Run_def split: prod.splits option.splits dest: wait_result)
  have 6: "\<forall>st e tr'. Run h c spec step tr = (Return (st, Some e), tr') \<longrightarrow> st = None"
    by (auto simp: Run_def split: prod.splits option.splits dest: wait_result)
  from 1 2 3 4 5 6 Run_trace [of h c spec step tr] show ?thesis by blast
qed

theorem Run_stages_in_order_witness:
  "Run example_helpers ok_client example_spec example_step [] =
     (Return (Some \<lparr>Exited = True, State.ExitCode = 0, State.OOMKilled = False\<rparr>, None),
      create_request example_helpers example_spec example_step # stage_requests example_step)
   \<and> Run example_helpers start_fails_client example_spec example_step [] =
     (Return (None, Some (otherError ''cannot start container'')),
      [create_request example_helpers example_spec example_step, ReqContainerStart ''step1''])"
proof -
  let ?cc = "create_request example_helpers example_spec example_step"
  have c: "create example_helpers ok_client example_spec example_step [] = (None, [?cc])"
    by (simp add: create_def Let_def sample_defs)
  have s: "start ok_client (Step.ID example_step) [?cc] = (None, [?cc, ReqContainerStart ''step1''])"
    by (simp add: start_def sample_defs)
  have t: "tail ok_client (Step.ID example_step) [?cc, ReqContainerStart ''step1''] =
      (None, [?cc, ReqContainerStart ''step1'', ReqContainerLogs ''step1'' logsOpts])"
    by (simp add: tail_def sample_defs)
  have w: "wait ok_client (Step.ID example_step)
        [?cc, ReqContainerStart ''step1'', ReqContainerLogs ''step1'' logsOpts] =
      (Return (Some \<lparr>Exited = True, State.ExitCode = 0, State.OOMKilled = False\<rparr>, None),
       ?cc # stage_requests example_step)"
    by (simp add: wait_def stage_requests_def sample_defs)
  have c': "create example_helpers start_fails_client example_spec example_step [] = (None, [?cc])"
    by (simp add: create_def Let_def start_fails_client_def sample_defs)
  have s': "start start_fails_client (Step.ID example_step) [?cc] =
      (Some (otherError ''cannot start container''), [?cc, ReqContainerStart ''step1''])"
    by (simp add: start_def start_fails_client_def sample_defs)
  have "Run example_helpers ok_client example_spec example_step [] =
      wait ok_client (Step.ID example_step)
        [?cc, ReqContainerStart ''step1'', ReqContainerLogs ''step1'' logsOpts]"
    using Run_stages_in_order [of example_helpers ok_client example_spec example_step "[]"] c s t
    by blast
  moreover have "Run example_helpers start_fails_client example_spec example_step [] =
     (Return (None, Some (otherError ''cannot start container'')), [?cc, ReqContainerStart ''step1''])"
    using Run_stages_in_order [of example_helpers start_fails_client example_spec example_step "[]"] c' s'
    by blast
  ultimately show ?thesis using w by simp
qed

end
